theory Spec2Isabelle
  imports Main "HOL-Library.Word" "HOL-Library.Sublist"
begin

unbundle bit_operations_syntax

section \<open>Strings of the host language\<close>

text \<open>
  A source string is a \<^typ>\<open>string\<close>; one \<^typ>\<open>char\<close> stands for one code unit of
  the source string. Every character the program inspects (separators, line terminators,
  quotes, the dot, the dollar sign) is ASCII.

  \<open>slice s start fin\<close> is \<^verbatim>\<open>s.slice(start, fin)\<close>: a negative index counts from the
  end, both indices are clamped to the string, and an end before the start gives the
  empty string. \<open>fin = None\<close> is the call with one argument.
\<close>

definition slice :: "string \<Rightarrow> int \<Rightarrow> int option \<Rightarrow> string" where
  "slice s start fin =
     (let len = int (length s);
          k = (if start < 0 then max (len + start) 0 else min start len);
          final = (case fin of
                     None \<Rightarrow> len
                   | Some e \<Rightarrow> if e < 0 then max (len + e) 0 else min e len)
      in take (nat (final - k)) (drop (nat k) s))"

text \<open>\<^verbatim>\<open>s.indexOf(x)\<close>: the first index at which \<open>x\<close> occurs in \<open>s\<close>, or \<open>-1\<close>.\<close>

fun indexOf_from :: "string \<Rightarrow> string \<Rightarrow> nat \<Rightarrow> int" where
  "indexOf_from [] x i = (if x = [] then int i else - 1)"
| "indexOf_from (c # s) x i =
     (if prefix x (c # s) then int i else indexOf_from s x (Suc i))"

definition indexOf :: "string \<Rightarrow> string \<Rightarrow> int" where
  "indexOf s x = indexOf_from s x 0"

text \<open>\<^verbatim>\<open>s.charAt(0)\<close>: the first character as a string, the empty string when there is none.\<close>

definition charAt0 :: "string \<Rightarrow> string" where
  "charAt0 s = take 1 s"

text \<open>Decimal rendering of a number inside a template string.\<close>

fun string_of_nat :: "nat \<Rightarrow> string" where
  "string_of_nat n =
     (if n < 10 then [char_of (48 + n)]
      else string_of_nat (n div 10) @ [char_of (48 + n mod 10)])"

declare string_of_nat.simps [simp del]

section \<open>The path module of the platform\<close>

text \<open>
  The functions of the platform's \<^verbatim>\<open>path\<close> module are not part of the repository; the
  program is modelled over any implementation of them. \<open>pathUtil_sep\<close> is \<^verbatim>\<open>path.sep\<close>:
  the slash on POSIX, the backslash (\<open>CHR 0x5C\<close>) on Windows.
\<close>

record path_module =
  pathUtil_sep :: char
  pathUtil_resolve :: "string list \<Rightarrow> string"
  pathUtil_normalize :: "string \<Rightarrow> string"
  pathUtil_join :: "string list \<Rightarrow> string"
  pathUtil_dirname :: "string \<Rightarrow> string"

section \<open>Module ids\<close>

text \<open>
  \<^verbatim>\<open>filenameToMid\<close> is chosen once from \<^verbatim>\<open>path.sep\<close>: the identity when the separator is
  the slash, otherwise the global replacement of the separator by a slash.
\<close>

definition filenameToMid :: "path_module \<Rightarrow> string \<Rightarrow> string" where
  "filenameToMid P filename =
     (if pathUtil_sep P = CHR ''/'' then filename
      else map (\<lambda>c. if c = pathUtil_sep P then CHR ''/'' else c) filename)"

text \<open>
  The module id of a declaration file, as \<^verbatim>\<open>writeDeclaration\<close> computes it:
  \<^verbatim>\<open>options.name + filenameToMid(filename.slice(baseDir.length, -5))\<close>.
\<close>

definition sourceModuleId :: "path_module \<Rightarrow> string \<Rightarrow> string \<Rightarrow> string \<Rightarrow> string" where
  "sourceModuleId P name baseDir filename =
     name @ filenameToMid P (slice filename (int (length baseDir)) (Some (- 5)))"

section \<open>Syntax trees of the compiler\<close>

text \<open>
  The node kinds and the flag the program tests; every other kind is \<open>OtherKind\<close>.
  \<open>NodeFlags_Export\<close> is the compiler's \<^verbatim>\<open>ts.NodeFlags.Export\<close>, the lowest bit.
\<close>

datatype SyntaxKind =
    StringLiteral
  | DeclareKeyword
  | ImportEqualsDeclaration
  | ImportDeclaration
  | ExportAssignment
  | ExportDeclaration
  | ExternalModuleReference
  | SourceFileKind
  | OtherKind nat

definition NodeFlags_Export :: "32 word" where
  "NodeFlags_Export = 1"

text \<open>
  A node carries what the program reads of it: \<^verbatim>\<open>kind\<close>, \<^verbatim>\<open>flags\<close>, \<^verbatim>\<open>pos\<close> (where its
  leading trivia starts), \<^verbatim>\<open>end\<close>, the \<^verbatim>\<open>text\<close> of a literal, and the children
  \<^verbatim>\<open>ts.forEachChild\<close> enumerates, in its order. Three reads go through a neighbouring
  node and are stored with the node itself. \<open>parent_kind\<close> is \<^verbatim>\<open>node.parent.kind\<close>; it
  is \<open>None\<close> when \<^verbatim>\<open>node.parent\<close> is \<^verbatim>\<open>undefined\<close>, as it is in the root and in every
  node of a file that was parsed without parent links and is not bound yet.
  \<open>moduleReference_kind\<close> is \<^verbatim>\<open>node.moduleReference.kind\<close> (read of an import-equals
  declaration only, where the compiler's types make the field mandatory) and
  \<open>expression_text\<close> is \<^verbatim>\<open>node.expression.text\<close> (read of an external module
  reference only, through the program's cast to a literal expression).
\<close>

datatype Node = Node
  (kind: SyntaxKind)
  (flags: "32 word")
  (pos: int)
  (endpos: int)
  (node_text: string)
  (parent_kind: "SyntaxKind option")
  (moduleReference_kind: SyntaxKind)
  (expression_text: string)
  (children: "Node list")

text \<open>
  A parsed file: its name, its text, its top-level statements, and the file seen as the
  root node of its tree (a \<^verbatim>\<open>ts.SourceFile\<close> is itself a node).
\<close>

record SourceFile =
  fileName :: string
  sourceText :: string
  statements :: "Node list"
  root :: Node

section \<open>Exceptions\<close>

text \<open>
  An error object: its message and its name. \<open>TypeError_kind_of_undefined\<close> is the
  exception of reading \<^verbatim>\<open>.kind\<close> of \<^verbatim>\<open>undefined\<close>, with the message the engine gives
  it. A function that may throw returns \<open>Inl\<close> of the error.
\<close>

record Error =
  error_message :: string
  error_name :: string

definition TypeError_kind_of_undefined :: Error where
  "TypeError_kind_of_undefined =
     \<lparr>error_message = ''Cannot read property '' @ [CHR 0x27] @ ''kind'' @ [CHR 0x27]
                       @ '' of undefined'',
      error_name = ''TypeError''\<rparr>"

section \<open>The tree rewriter\<close>

text \<open>The two variables \<^verbatim>\<open>processTree\<close> updates while it walks the tree.\<close>

record rewriter =
  code :: string
  cursorPosition :: int

definition skip :: "Node \<Rightarrow> rewriter \<Rightarrow> rewriter" where
  "skip node st = st\<lparr>cursorPosition := endpos node\<rparr>"

definition readThrough :: "string \<Rightarrow> Node \<Rightarrow> rewriter \<Rightarrow> rewriter" where
  "readThrough txt node st =
     st\<lparr>code := code st @ slice txt (cursorPosition st) (Some (pos node)),
        cursorPosition := pos node\<rparr>"

text \<open>
  \<open>visit\<close> is the inner function of that name; \<open>visitEach\<close> is
  \<^verbatim>\<open>ts.forEachChild(node, visit)\<close> over the children (\<open>visit\<close> returns nothing, so the
  enumeration never stops early). A replacement of \<open>None\<close> is \<^verbatim>\<open>null\<close> or
  \<^verbatim>\<open>undefined\<close>; the empty string is a replacement.
\<close>

lemma size_children: "size_list size (children node) < size node"
  by (cases node) simp

function visit :: "string \<Rightarrow> (Node \<Rightarrow> string option) \<Rightarrow> Node \<Rightarrow> rewriter \<Rightarrow> rewriter"
  and visitEach :: "string \<Rightarrow> (Node \<Rightarrow> string option) \<Rightarrow> Node list \<Rightarrow> rewriter \<Rightarrow> rewriter"
where
  "visit txt replacer node st =
     (let st1 = readThrough txt node st in
      case replacer node of
        Some replacement \<Rightarrow> skip node (st1\<lparr>code := code st1 @ replacement\<rparr>)
      | None \<Rightarrow> visitEach txt replacer (children node) st1)"
| "visitEach txt replacer [] st = st"
| "visitEach txt replacer (child # rest) st =
     visitEach txt replacer rest (visit txt replacer child st)"
  by pat_completeness auto

termination
  by (relation "measure (\<lambda>x. case x of
          Inl (_, _, node, _) \<Rightarrow> size node
        | Inr (_, _, nodes, _) \<Rightarrow> size_list size nodes)")
     (auto simp: size_children)

declare visit.simps [simp del]

definition processTree :: "SourceFile \<Rightarrow> (Node \<Rightarrow> string option) \<Rightarrow> string" where
  "processTree sourceFile replacer =
     (let st = visit (sourceText sourceFile) replacer (root sourceFile)
                 \<lparr>code = [], cursorPosition = 0\<rparr>
      in code st @ slice (sourceText sourceFile) (cursorPosition st) None)"

text \<open>
  \<^verbatim>\<open>processTree\<close> has no handler: when the replacer throws, the exception leaves
  \<^verbatim>\<open>processTree\<close> from the node it was thrown at. \<open>visit_throwing\<close>,
  \<open>visitEach_throwing\<close> and \<open>processTree_throwing\<close> are the same functions for a
  replacer that may throw.
\<close>

function visit_throwing ::
    "string \<Rightarrow> (Node \<Rightarrow> Error + string option) \<Rightarrow> Node \<Rightarrow> rewriter \<Rightarrow> Error + rewriter"
  and visitEach_throwing ::
    "string \<Rightarrow> (Node \<Rightarrow> Error + string option) \<Rightarrow> Node list \<Rightarrow> rewriter \<Rightarrow> Error + rewriter"
where
  "visit_throwing txt replacer node st =
     (let st1 = readThrough txt node st in
      case replacer node of
        Inl thrown \<Rightarrow> Inl thrown
      | Inr (Some replacement) \<Rightarrow> Inr (skip node (st1\<lparr>code := code st1 @ replacement\<rparr>))
      | Inr None \<Rightarrow> visitEach_throwing txt replacer (children node) st1)"
| "visitEach_throwing txt replacer [] st = Inr st"
| "visitEach_throwing txt replacer (child # rest) st =
     (case visit_throwing txt replacer child st of
        Inl thrown \<Rightarrow> Inl thrown
      | Inr st' \<Rightarrow> visitEach_throwing txt replacer rest st')"
  by pat_completeness auto

termination
  by (relation "measure (\<lambda>x. case x of
          Inl (_, _, node, _) \<Rightarrow> size node
        | Inr (_, _, nodes, _) \<Rightarrow> size_list size nodes)")
     (auto simp: size_children)

declare visit_throwing.simps [simp del]

definition processTree_throwing ::
    "SourceFile \<Rightarrow> (Node \<Rightarrow> Error + string option) \<Rightarrow> Error + string" where
  "processTree_throwing sourceFile replacer =
     (case visit_throwing (sourceText sourceFile) replacer (root sourceFile)
             \<lparr>code = [], cursorPosition = 0\<rparr> of
        Inl thrown \<Rightarrow> Inl thrown
      | Inr st \<Rightarrow> Inr (code st @ slice (sourceText sourceFile) (cursorPosition st) None))"

text \<open>What a replacer returns at a node; \<open>None\<close> also where it throws.\<close>

definition returned :: "(Node \<Rightarrow> Error + string option) \<Rightarrow> Node \<Rightarrow> string option" where
  "returned replacer node = (case replacer node of Inl thrown \<Rightarrow> None | Inr replacement \<Rightarrow> replacement)"

section \<open>The module classifier\<close>

text \<open>
  \<open>externalMarker\<close> is the truth value of the marker \<^verbatim>\<open>isExternalModule\<close> computes for a
  statement; the bitwise test is true when the result is not zero.
\<close>

definition externalMarker :: "Node \<Rightarrow> bool" where
  "externalMarker node =
     (flags node AND NodeFlags_Export \<noteq> 0
      \<or> kind node = ImportEqualsDeclaration \<and> moduleReference_kind node = ExternalModuleReference
      \<or> kind node = ImportDeclaration
      \<or> kind node = ExportAssignment
      \<or> kind node = ExportDeclaration)"

definition isExternalModule :: "SourceFile \<Rightarrow> bool" where
  "isExternalModule sourceFile = list_ex externalMarker (statements sourceFile)"

section \<open>Re-indentation\<close>

text \<open>
  \<^verbatim>\<open>nonEmptyLineStart\<close> is the global pattern \<^verbatim>\<open>eol(?!eol|$)\<close>, compiled from the line
  terminator \<open>eol\<close> that is current when \<^verbatim>\<open>generate\<close> starts; the model keeps the
  terminator and reads it literally, as the pattern does for a terminator without
  pattern operators (line feed, or carriage return and line feed). The pattern has no
  capture group.

  \<open>getSubstitution\<close> expands a replacement template at one match: \<^verbatim>\<open>$$\<close> is a dollar
  sign, \<^verbatim>\<open>$&\<close> the matched text, \<^verbatim>\<open>$`\<close> the text before the match, \<^verbatim>\<open>$'\<close> the text
  after it; without capture groups every other character stands for itself.
\<close>

fun getSubstitution :: "string \<Rightarrow> string \<Rightarrow> string \<Rightarrow> string \<Rightarrow> string" where
  "getSubstitution matched preceding following [] = []"
| "getSubstitution matched preceding following [c] = [c]"
| "getSubstitution matched preceding following (c # d # template) =
     (if c = CHR ''$'' \<and> d = CHR ''$'' then
        CHR ''$'' # getSubstitution matched preceding following template
      else if c = CHR ''$'' \<and> d = CHR ''&'' then
        matched @ getSubstitution matched preceding following template
      else if c = CHR ''$'' \<and> d = CHR 0x60 then
        preceding @ getSubstitution matched preceding following template
      else if c = CHR ''$'' \<and> d = CHR 0x27 then
        following @ getSubstitution matched preceding following template
      else c # getSubstitution matched preceding following (d # template))"

text \<open>
  \<open>matches_nonEmptyLineStart eol rest\<close>: the pattern matches at the start of \<open>rest\<close>
  (the terminator is there, and what follows is neither the terminator nor the end of
  the input). \<open>replace_from\<close> is \<^verbatim>\<open>String.prototype.replace\<close> with the global pattern,
  from the position after \<open>preceding\<close>: matches are taken from left to right, the search
  resumes after each match.
\<close>

definition matches_nonEmptyLineStart :: "string \<Rightarrow> string \<Rightarrow> bool" where
  "matches_nonEmptyLineStart eol rest =
     (prefix eol rest
      \<and> \<not> prefix eol (drop (length eol) rest)
      \<and> drop (length eol) rest \<noteq> [])"

lemma matches_nonEmptyLineStart_eol: "matches_nonEmptyLineStart eol rest \<Longrightarrow> 0 < length eol"
  by (cases eol) (auto simp: matches_nonEmptyLineStart_def)

function replace_from :: "string \<Rightarrow> string \<Rightarrow> string \<Rightarrow> string \<Rightarrow> string" where
  "replace_from eol template preceding rest =
     (case rest of
        [] \<Rightarrow> []
      | c # rest' \<Rightarrow>
          if matches_nonEmptyLineStart eol rest then
            getSubstitution eol preceding (drop (length eol) rest) template
            @ replace_from eol template (preceding @ eol) (drop (length eol) rest)
          else c # replace_from eol template (preceding @ [c]) rest')"
  by pat_completeness auto

termination
  by (relation "measure (\<lambda>(eol, template, preceding, rest). length rest)")
     (auto dest: matches_nonEmptyLineStart_eol)

declare replace_from.simps [simp del]

definition replace_nonEmptyLineStart :: "string \<Rightarrow> string \<Rightarrow> string \<Rightarrow> string" where
  "replace_nonEmptyLineStart eol template content = replace_from eol template [] content"

section \<open>The declaration emitter\<close>

text \<open>The options of a run; an absent option is \<open>None\<close>.\<close>

record Options =
  options_baseDir :: string
  options_files :: "string list"
  options_excludes :: "string list option"
  options_externs :: "string list option"
  options_eol :: "string option"
  options_indent :: "string option"
  options_main :: "string option"
  options_name :: string
  options_out :: string
  options_target :: "nat option"

text \<open>
  The compiler options are an object whose properties \<^verbatim>\<open>generate\<close> sets from the
  compiler's enumerations, which are numbers, or takes as they stand in the parsed
  JSON of the project configuration, where they may be any value. \<open>JsOther\<close> stands
  for an array or an object. \<^verbatim>\<open>ts.NewLineKind.CarriageReturnLineFeed\<close> is the number
  0, \<^verbatim>\<open>LineFeed\<close> the number 1.
\<close>

datatype JsValue = JsNumber nat | JsString string | JsBool bool | JsNull | JsOther

definition CarriageReturnLineFeed :: JsValue where
  "CarriageReturnLineFeed = JsNumber 0"

definition LineFeed :: JsValue where
  "LineFeed = JsNumber 1"

datatype ModuleKind = CommonJS | OtherModuleKind nat

record CompilerOptions =
  co_declaration :: bool
  moduleKind :: "ModuleKind option"
  newLine :: "JsValue option"
  co_target :: "JsValue option"
  watch :: "bool option"
  diagnostics :: "bool option"
  noEmit :: "bool option"

text \<open>
  The variables of \<^verbatim>\<open>generate\<close> that its inner functions close over, as they stand
  once the configuration is read. \<open>v_nonEmptyLineStart\<close> is the terminator the pattern
  was compiled from.
\<close>

record scope =
  v_options :: Options
  v_baseDir :: string
  v_eol :: string
  v_nonEmptyLineStart :: string
  v_indent :: string
  v_compilerOptions :: CompilerOptions
  v_filenames :: "string list"
  v_excludesMap :: "string list"

text \<open>
  The replacer \<^verbatim>\<open>writeDeclaration\<close> hands to \<^verbatim>\<open>processTree\<close>. Of a string literal it
  reads \<^verbatim>\<open>node.parent.kind\<close>, which throws when the node has no parent.
\<close>

definition replacer_of :: "path_module \<Rightarrow> string \<Rightarrow> Node \<Rightarrow> Error + string option" where
  "replacer_of P mid node =
     (if kind node = ExternalModuleReference then
        (if charAt0 (expression_text node) = ''.'' then
           Inr (Some ('' require('' @ [CHR 0x27]
                 @ filenameToMid P (pathUtil_join P [pathUtil_dirname P mid, expression_text node])
                 @ [CHR 0x27] @ '')''))
         else Inr None)
      else if kind node = DeclareKeyword then Inr (Some [])
      else if kind node = StringLiteral then
        (case parent_kind node of
           None \<Rightarrow> Inl TypeError_kind_of_undefined
         | Some parent \<Rightarrow>
             if parent = ExportDeclaration \<or> parent = ImportDeclaration then
               (if charAt0 (node_text node) = ''.'' then
                  Inr (Some ('' '' @ [CHR 0x27]
                        @ filenameToMid P (pathUtil_join P [pathUtil_dirname P mid, node_text node])
                        @ [CHR 0x27]))
                else Inr None)
             else Inr None)
      else Inr None)"

text \<open>
  \<^verbatim>\<open>writeDeclaration\<close> appends to the output stream; the stream is the text written so
  far. The result is the stream after the call and the exception that ended the call,
  if one did: what was written before the replacer threw stays written.
\<close>

definition writeDeclaration ::
    "path_module \<Rightarrow> scope \<Rightarrow> SourceFile \<Rightarrow> string \<Rightarrow> string \<times> Error option" where
  "writeDeclaration P V declarationFile output =
     (let filename = fileName declarationFile;
          mid = sourceModuleId P (options_name (v_options V)) (v_baseDir V) filename
      in if isExternalModule declarationFile then
           (let opening = v_eol V @ ''declare module '' @ [CHR 0x27] @ mid @ [CHR 0x27] @ '' {''
                          @ v_eol V @ v_indent V
            in case processTree_throwing declarationFile (replacer_of P mid) of
                 Inl thrown \<Rightarrow> (output @ opening, Some thrown)
               | Inr content \<Rightarrow>
                   (let body = replace_nonEmptyLineStart (v_nonEmptyLineStart V)
                                 (''$&'' @ v_indent V) content
                    in (output @ opening @ body @ (v_eol V @ ''}'' @ v_eol V), None)))
         else (output @ sourceText declarationFile, None))"

section \<open>The collaborators of a run\<close>

text \<open>
  The compiler, the file system and the operating system are not part of the
  repository. A run is modelled over any behaviour of them: \<open>env\<close> holds the functions
  and constants \<^verbatim>\<open>generate\<close> calls. \<open>written\<close> lists the calls an emit makes to the
  \<^verbatim>\<open>writeFile\<close> callback (file name and data), in order. Writing to the output stream
  is appending to a string; a failure of the stream itself is outside the model.
\<close>

record Diagnostic =
  diagnostic_file :: SourceFile
  diagnostic_start :: nat
  diagnostic_code :: nat
  messageText :: string

record EmitOutput =
  written :: "(string \<times> string) list"
  emitSkipped :: bool
  emit_diagnostics :: "Diagnostic list"

record Program =
  getSourceFiles :: "SourceFile list"
  emit :: "SourceFile \<Rightarrow> EmitOutput"
  getSemanticDiagnostics :: "SourceFile \<Rightarrow> Diagnostic list"
  getSyntacticDiagnostics :: "SourceFile \<Rightarrow> Diagnostic list"
  getDeclarationDiagnostics :: "SourceFile \<Rightarrow> Diagnostic list"

text \<open>
  What \<^verbatim>\<open>ts.readConfigFile\<close> returns: an error, or the parsed JSON of the
  configuration, in which the compiler options and the file list may each be absent
  and the properties of the compiler options are as the file spells them (a
  \<^verbatim>\<open>newLine\<close> or a \<^verbatim>\<open>target\<close> there is a string).
\<close>

record TsConfig =
  config_compilerOptions :: "CompilerOptions option"
  config_files :: "string list option"

datatype ConfigFile = ConfigError string | Config TsConfig

record env =
  pathUtil :: path_module
  os_EOL :: string
  existsSync :: "string \<Rightarrow> bool"
  readConfigFile :: "string \<Rightarrow> ConfigFile"
  createProgram :: "string list \<Rightarrow> CompilerOptions \<Rightarrow> Program"
  createSourceFile :: "string \<Rightarrow> string \<Rightarrow> JsValue option \<Rightarrow> SourceFile"
  getLineAndCharacterOfPosition :: "SourceFile \<Rightarrow> nat \<Rightarrow> nat \<times> nat"
  ScriptTarget_Latest :: nat

section \<open>The bundle assembler\<close>

text \<open>
  The run is modelled as \<^verbatim>\<open>src/index.ts\<close> has it. \<^verbatim>\<open>src/index.js\<close> is the same program
  but for two places: it parses the project configuration with \<^verbatim>\<open>ts.parseConfigFile\<close>,
  and it matches \<^verbatim>\<open>options.excludes\<close> as patterns (\<open>eachSourceFile_js\<close> below).
\<close>

definition getError :: "env \<Rightarrow> Diagnostic list \<Rightarrow> Error" where
  "getError E diags =
     (let message =
            foldl (\<lambda>message diagnostic.
                     let position = getLineAndCharacterOfPosition E
                                      (diagnostic_file diagnostic) (diagnostic_start diagnostic)
                     in message
                        @ ([CHR 0x0A] @ fileName (diagnostic_file diagnostic)
                           @ ''('' @ string_of_nat (fst position + 1)
                           @ '','' @ string_of_nat (snd position + 1) @ ''): '')
                        @ (''error TS'' @ string_of_nat (diagnostic_code diagnostic)
                           @ '': '' @ messageText diagnostic))
                  ''Declaration generation failed'' diags
      in \<lparr>error_message = message, error_name = ''EmitterError''\<rparr>)"

definition getFilenames :: "path_module \<Rightarrow> string \<Rightarrow> string list \<Rightarrow> string list" where
  "getFilenames P baseDir files =
     map (\<lambda>filename.
            let resolvedFilename = pathUtil_resolve P [filename]
            in if indexOf resolvedFilename baseDir = 0 then resolvedFilename
               else pathUtil_resolve P [baseDir, filename])
         files"

text \<open>
  The state of a run: the text written to the output stream (\<open>sink\<close>), the messages sent,
  the error the promise was rejected with, if it was, and whether an exception left
  the promise's executor. A second rejection of a promise has no effect. An exception
  thrown in the executor rejects the promise with it and ends the executor:
  \<open>executor_throws\<close>.
\<close>

record run =
  sink :: string
  messages :: "string list"
  rejected :: "Error option"
  executor_thrown :: bool

definition sendMessage :: "string \<Rightarrow> run \<Rightarrow> run" where
  "sendMessage message st = st\<lparr>messages := messages st @ [message]\<rparr>"

definition output_write :: "string \<Rightarrow> run \<Rightarrow> run" where
  "output_write chunk st = st\<lparr>sink := sink st @ chunk\<rparr>"

definition reject :: "Error \<Rightarrow> run \<Rightarrow> run" where
  "reject e st =
     st\<lparr>rejected := (case rejected st of None \<Rightarrow> Some e | Some first \<Rightarrow> Some first)\<rparr>"

definition executor_throws :: "Error \<Rightarrow> run \<Rightarrow> run" where
  "executor_throws e st = (reject e st)\<lparr>executor_thrown := True\<rparr>"

text \<open>
  \<^verbatim>\<open>ts.createSourceFile(filename, data, target, true)\<close> returns a source file node and,
  its last argument being \<^verbatim>\<open>true\<close>, sets the parent of every node below it.
  \<open>parsed_with_parents\<close> gives the result of the parser that shape, whatever the parser.
\<close>

fun setParentNodes :: "SyntaxKind \<Rightarrow> Node \<Rightarrow> Node" where
  "setParentNodes parent (Node k f p e t pk mk et cs) =
     Node k f p e t (Some parent) mk et (map (setParentNodes k) cs)"

definition parsed_with_parents :: "SourceFile \<Rightarrow> SourceFile" where
  "parsed_with_parents sourceFile =
     sourceFile
       \<lparr>statements := map (setParentNodes SourceFileKind) (statements sourceFile),
        root := Node SourceFileKind (flags (root sourceFile)) (pos (root sourceFile))
                  (endpos (root sourceFile)) (node_text (root sourceFile)) None
                  (moduleReference_kind (root sourceFile)) (expression_text (root sourceFile))
                  (map (setParentNodes SourceFileKind) (children (root sourceFile)))\<rparr>"

text \<open>
  \<open>writeFile\<close> is the callback \<^verbatim>\<open>generate\<close> hands to \<^verbatim>\<open>program.emit\<close>; \<open>writeFiles\<close> is
  the calls one emit makes to it, in order: an exception in a call leaves the emit.
\<close>

definition writeFile :: "env \<Rightarrow> scope \<Rightarrow> string \<Rightarrow> string \<Rightarrow> run \<Rightarrow> run \<times> Error option" where
  "writeFile E V filename data st =
     (if slice filename (- 5) None \<noteq> ''.d.ts'' then (st, None)
      else
        (case writeDeclaration (pathUtil E) V
                (parsed_with_parents
                   (createSourceFile E filename data (co_target (v_compilerOptions V))))
                (sink st) of
           (written_now, thrown) \<Rightarrow> (st\<lparr>sink := written_now\<rparr>, thrown)))"

fun writeFiles :: "env \<Rightarrow> scope \<Rightarrow> (string \<times> string) list \<Rightarrow> run \<Rightarrow> run \<times> Error option" where
  "writeFiles E V [] st = (st, None)"
| "writeFiles E V ((filename, data) # rest) st =
     (case writeFile E V filename data st of
        (st', Some thrown) \<Rightarrow> (st', Some thrown)
      | (st', None) \<Rightarrow> writeFiles E V rest st')"

text \<open>
  \<open>eachSourceFile\<close> is the callback of \<^verbatim>\<open>program.getSourceFiles().some(...)\<close> in
  \<^verbatim>\<open>src/index.ts\<close>: it returns the new state and whether the iteration ends with it,
  because the callback returned \<^verbatim>\<open>true\<close> or because it threw. \<open>processSourceFile\<close> is
  the callback from its \<open>Processing\<close> message on. \<open>some_sourceFiles\<close> is the iteration.
\<close>

definition processSourceFile :: "env \<Rightarrow> scope \<Rightarrow> Program \<Rightarrow> SourceFile \<Rightarrow> run \<Rightarrow> run \<times> bool" where
  "processSourceFile E V program sourceFile st =
     (let st1 = sendMessage (''Processing '' @ fileName sourceFile) st in
      if slice (fileName sourceFile) (- 5) None = ''.d.ts'' then
        (case writeDeclaration (pathUtil E) V sourceFile (sink st1) of
           (written_now, None) \<Rightarrow> (st1\<lparr>sink := written_now\<rparr>, False)
         | (written_now, Some thrown) \<Rightarrow>
             (executor_throws thrown (st1\<lparr>sink := written_now\<rparr>), True))
      else
        (let emitOutput = emit program sourceFile in
         case writeFiles E V (written emitOutput) st1 of
           (st2, Some thrown) \<Rightarrow> (executor_throws thrown st2, True)
         | (st2, None) \<Rightarrow>
             if emitSkipped emitOutput \<or> emit_diagnostics emitOutput \<noteq> [] then
               (reject (getError E
                          (emit_diagnostics emitOutput
                           @ getSemanticDiagnostics program sourceFile
                           @ getSyntacticDiagnostics program sourceFile
                           @ getDeclarationDiagnostics program sourceFile))
                  st2,
                True)
             else (st2, False)))"

definition eachSourceFile :: "env \<Rightarrow> scope \<Rightarrow> Program \<Rightarrow> SourceFile \<Rightarrow> run \<Rightarrow> run \<times> bool" where
  "eachSourceFile E V program sourceFile st =
     (let P = pathUtil E in
      if indexOf (pathUtil_normalize P (fileName sourceFile)) (v_baseDir V) \<noteq> 0 then (st, False)
      else if filenameToMid P (pathUtil_normalize P (fileName sourceFile)) \<in> set (v_excludesMap V)
      then (st, False)
      else processSourceFile E V program sourceFile st)"

fun some_sourceFiles :: "env \<Rightarrow> scope \<Rightarrow> Program \<Rightarrow> SourceFile list \<Rightarrow> run \<Rightarrow> run" where
  "some_sourceFiles E V program [] st = st"
| "some_sourceFiles E V program (sourceFile # rest) st =
     (case eachSourceFile E V program sourceFile st of
        (st', True) \<Rightarrow> st'
      | (st', False) \<Rightarrow> some_sourceFiles E V program rest st')"

text \<open>
  The same callback in \<^verbatim>\<open>src/index.js\<close>, which differs in the exclusion: the name of
  the file relative to the base directory is matched against \<^verbatim>\<open>options.excludes\<close> by
  \<^verbatim>\<open>multimatch\<close>, and a match is reported before the file is passed over.
  \<open>multimatch\<close> and \<open>relative\<close> (\<^verbatim>\<open>path.relative\<close>) are parameters.
\<close>

definition eachSourceFile_js ::
    "(string \<Rightarrow> string list \<Rightarrow> string list) \<Rightarrow> (string \<Rightarrow> string \<Rightarrow> string)
     \<Rightarrow> env \<Rightarrow> scope \<Rightarrow> Program \<Rightarrow> SourceFile \<Rightarrow> run \<Rightarrow> run \<times> bool" where
  "eachSourceFile_js multimatch relative E V program sourceFile st =
     (let P = pathUtil E in
      if indexOf (pathUtil_normalize P (fileName sourceFile)) (v_baseDir V) \<noteq> 0 then (st, False)
      else
        (case options_excludes (v_options V) of
           None \<Rightarrow> processSourceFile E V program sourceFile st
         | Some patterns \<Rightarrow>
             (let relativeFilename = relative (v_baseDir V) (fileName sourceFile);
                  matches = multimatch relativeFilename patterns
              in if matches \<noteq> [] then (sendMessage (''Excluding '' @ relativeFilename) st, False)
                 else processSourceFile E V program sourceFile st)))"

text \<open>
  Truth of a value in a condition: an absent value, the empty string, the number zero,
  \<^verbatim>\<open>false\<close> and \<^verbatim>\<open>null\<close> are false, every other value is true.
\<close>

definition truthy :: "string option \<Rightarrow> bool" where
  "truthy v = (case v of None \<Rightarrow> False | Some s \<Rightarrow> s \<noteq> [])"

definition truthy_number :: "nat option \<Rightarrow> bool" where
  "truthy_number v = (case v of None \<Rightarrow> False | Some n \<Rightarrow> n \<noteq> 0)"

definition truthy_value :: "JsValue option \<Rightarrow> bool" where
  "truthy_value v =
     (case v of
        None \<Rightarrow> False
      | Some (JsNumber n) \<Rightarrow> n \<noteq> 0
      | Some (JsString s) \<Rightarrow> s \<noteq> []
      | Some (JsBool b) \<Rightarrow> b
      | Some JsNull \<Rightarrow> False
      | Some JsOther \<Rightarrow> True)"

definition LF :: string where
  "LF = [CHR 0x0A]"

definition CRLF :: string where
  "CRLF = [CHR 0x0D, CHR 0x0A]"

definition TAB :: string where
  "TAB = [CHR 0x09]"

datatype failure = Rejected_tsConfigError string | Thrown_TypeError

text \<open>
  \<open>prepare\<close> is \<^verbatim>\<open>generate\<close> up to the point where it opens the output stream: the
  defaults, the file names, the excludes map and the project configuration. It ends
  early when the configuration cannot be read (the promise returned is rejected with
  the error) and when the configuration lacks the compiler options or the file list
  (reading a property of \<^verbatim>\<open>undefined\<close> throws); nothing is written then.
\<close>

definition prepare :: "env \<Rightarrow> Options \<Rightarrow> failure + scope" where
  "prepare E options =
     (let P = pathUtil E;
          baseDir = pathUtil_resolve P [options_baseDir options];
          eol = (if truthy (options_eol options) then the (options_eol options) else os_EOL E);
          nonEmptyLineStart = eol;
          indent = (case options_indent options of None \<Rightarrow> TAB | Some i \<Rightarrow> i);
          compilerOptions =
            \<lparr>co_declaration = True,
             moduleKind = Some CommonJS,
             newLine = Some (if eol = CRLF then CarriageReturnLineFeed else LineFeed),
             co_target = Some (JsNumber (if truthy_number (options_target options)
                                         then the (options_target options)
                                         else ScriptTarget_Latest E)),
             watch = None, diagnostics = None, noEmit = None\<rparr>;
          filenames = getFilenames P baseDir (options_files options);
          excludesMap =
            (case options_excludes options of
               None \<Rightarrow> []
             | Some names \<Rightarrow>
                 map (\<lambda>filename. filenameToMid P (pathUtil_resolve P [baseDir, filename])) names);
          V = \<lparr>v_options = options, v_baseDir = baseDir, v_eol = eol,
               v_nonEmptyLineStart = nonEmptyLineStart, v_indent = indent,
               v_compilerOptions = compilerOptions, v_filenames = filenames,
               v_excludesMap = excludesMap\<rparr>;
          tsConfigFilename = pathUtil_join P [baseDir, ''tsconfig.json'']
      in if existsSync E tsConfigFilename then
           (case readConfigFile E tsConfigFilename of
              ConfigError tsConfigError \<Rightarrow> Inl (Rejected_tsConfigError tsConfigError)
            | Config tsConfig \<Rightarrow>
                (case config_compilerOptions tsConfig of
                   None \<Rightarrow> Inl Thrown_TypeError
                 | Some tsCompilerOptions \<Rightarrow>
                     (let co1 = tsCompilerOptions\<lparr>co_declaration := True\<rparr>;
                          co2 = (if truthy (options_eol options) then
                                   co1\<lparr>newLine :=
                                         Some (if the (options_eol options) = CRLF
                                               then CarriageReturnLineFeed else LineFeed)\<rparr>
                                 else co1);
                          eol' = (if \<not> truthy (options_eol options) \<and> truthy_value (newLine co1) then
                                    (if newLine co1 = Some CarriageReturnLineFeed then CRLF else LF)
                                  else eol);
                          co3 = (if truthy_number (options_target options) then
                                   co2\<lparr>co_target := map_option JsNumber (options_target options)\<rparr>
                                 else co2);
                          co4 = co3\<lparr>watch := None, diagnostics := None, noEmit := None\<rparr>
                      in case config_files tsConfig of
                           None \<Rightarrow> Inl Thrown_TypeError
                         | Some configFiles \<Rightarrow>
                             (let tsConfigDeclarationFiles =
                                    map (\<lambda>filename. pathUtil_resolve P [baseDir, filename])
                                      (filter (\<lambda>filename. slice filename (- 5) None = ''.d.ts'')
                                         configFiles)
                              in Inr (V\<lparr>v_eol := eol',
                                        v_compilerOptions := co4,
                                        v_filenames := tsConfigDeclarationFiles @ filenames\<rparr>)))))
         else Inr V)"

text \<open>The banner, the reference lines, and the alias of the main module.\<close>

definition write_banner :: "scope \<Rightarrow> run \<Rightarrow> run" where
  "write_banner V st =
     output_write
       (''//'' @ v_eol V
        @ ''// Auto-generated by dts-generator (https://github.com/enlight/dts-generator/)''
        @ v_eol V @ ''//'' @ v_eol V @ v_eol V)
       st"

definition write_externs :: "scope \<Rightarrow> run \<Rightarrow> run" where
  "write_externs V st =
     (case options_externs (v_options V) of
        None \<Rightarrow> st
      | Some paths \<Rightarrow>
          foldl (\<lambda>s path.
                   output_write (''/// <reference path='' @ [CHR 0x22] @ path @ [CHR 0x22] @ '' />''
                                 @ v_eol V)
                     (sendMessage (''Writing external dependency '' @ path) s))
                st paths)"

definition main_alias :: "scope \<Rightarrow> string \<Rightarrow> string" where
  "main_alias V m =
     (v_eol V @ ''declare module '' @ [CHR 0x27] @ options_name (v_options V) @ [CHR 0x27]
      @ '' {'' @ v_eol V)
     @ (v_indent V @ ''export * from '' @ [CHR 0x27] @ m @ [CHR 0x27] @ '';'' @ v_eol V)
     @ (''}'' @ v_eol V)"

definition write_main :: "scope \<Rightarrow> run \<Rightarrow> run" where
  "write_main V st =
     (if truthy (options_main (v_options V)) then
        (let m = the (options_main (v_options V)) in
         sendMessage (''Aliased main module '' @ options_name (v_options V) @ '' to '' @ m)
           (output_write (main_alias V m) st))
      else st)"

text \<open>
  \<^verbatim>\<open>generate\<close>: the promise's executor runs at once. \<open>bundle_files\<close> is the run up to
  the end of the iteration over the source files, \<open>assemble\<close> the whole of it; the
  state it leaves is the outcome of the run, rejected with an error or resolved when
  the stream closes. When an exception left the executor, nothing after it is run.
\<close>

definition bundle_files :: "env \<Rightarrow> scope \<Rightarrow> run" where
  "bundle_files E V =
     (let program = createProgram E (v_filenames V) (v_compilerOptions V);
          st0 = \<lparr>sink = [], messages = [], rejected = None, executor_thrown = False\<rparr>;
          st1 = write_externs V (write_banner V st0)
      in some_sourceFiles E V program (getSourceFiles program) st1)"

definition assemble :: "env \<Rightarrow> scope \<Rightarrow> run" where
  "assemble E V =
     (let st = bundle_files E V in if executor_thrown st then st else write_main V st)"

definition generate :: "env \<Rightarrow> Options \<Rightarrow> failure + run" where
  "generate E options =
     (case prepare E options of
        Inl failed \<Rightarrow> Inl failed
      | Inr V \<Rightarrow> Inr (assemble E V))"

section \<open>Spans of a syntax tree\<close>

text \<open>
  The invariant of the trees the parser builds: the span of a node, from \<^verbatim>\<open>pos\<close> to
  \<^verbatim>\<open>end\<close>, contains the spans of its children, which follow one another in the order
  \<^verbatim>\<open>ts.forEachChild\<close> enumerates them. \<open>nested_spans_from lo nodes hi\<close> says so of a
  list of siblings between \<open>lo\<close> and \<open>hi\<close>.
\<close>

fun nested_spans :: "Node \<Rightarrow> bool"
  and nested_spans_from :: "int \<Rightarrow> Node list \<Rightarrow> int \<Rightarrow> bool" where
  "nested_spans (Node k f p e t pk mk et cs) = (p \<le> e \<and> nested_spans_from p cs e)"
| "nested_spans_from lo [] hi = (lo \<le> hi)"
| "nested_spans_from lo (c # cs) hi =
     (lo \<le> pos c \<and> nested_spans c \<and> nested_spans_from (endpos c) cs hi)"

text \<open>
  \<open>replaced_spans\<close> lists, in source order, the nodes the traversal reaches and the
  replacer replaces: span and replacement. \<open>splice\<close> is the text from a cursor on with
  each listed span replaced. \<open>nodes_of\<close> lists the nodes of a tree, parents first.
\<close>

fun replaced_spans :: "(Node \<Rightarrow> string option) \<Rightarrow> Node \<Rightarrow> (int \<times> int \<times> string) list"
  and replaced_spans_list :: "(Node \<Rightarrow> string option) \<Rightarrow> Node list \<Rightarrow> (int \<times> int \<times> string) list" where
  "replaced_spans replacer (Node k f p e t pk mk et cs) =
     (case replacer (Node k f p e t pk mk et cs) of
        Some replacement \<Rightarrow> [(p, e, replacement)]
      | None \<Rightarrow> replaced_spans_list replacer cs)"
| "replaced_spans_list replacer [] = []"
| "replaced_spans_list replacer (c # cs) =
     replaced_spans replacer c @ replaced_spans_list replacer cs"

fun splice :: "string \<Rightarrow> int \<Rightarrow> (int \<times> int \<times> string) list \<Rightarrow> string" where
  "splice txt cursor [] = slice txt cursor None"
| "splice txt cursor ((p, e, replacement) # spans) =
     slice txt cursor (Some p) @ replacement @ splice txt e spans"

fun nodes_of :: "Node \<Rightarrow> Node list" and nodes_of_list :: "Node list \<Rightarrow> Node list" where
  "nodes_of (Node k f p e t pk mk et cs) = Node k f p e t pk mk et cs # nodes_of_list cs"
| "nodes_of_list [] = []"
| "nodes_of_list (c # cs) = nodes_of c @ nodes_of_list cs"

definition starts_after :: "int \<Rightarrow> (int \<times> int \<times> string) list \<Rightarrow> bool" where
  "starts_after c spans = (case spans of [] \<Rightarrow> True | (p, _) # _ \<Rightarrow> c \<le> p)"

text \<open>
  The leading trivia of a node is the text between \<^verbatim>\<open>pos\<close> and the node's first own
  character, at \<open>start\<close>; its own text runs from there to \<^verbatim>\<open>end\<close>.
\<close>

definition leadingTrivia :: "string \<Rightarrow> Node \<Rightarrow> int \<Rightarrow> string" where
  "leadingTrivia src node start = slice src (pos node) (Some start)"

definition ownText :: "string \<Rightarrow> Node \<Rightarrow> int \<Rightarrow> string" where
  "ownText src node start = slice src start (Some (endpos node))"

section \<open>Re-indentation, position by position\<close>






section \<open>Concrete platforms for the examples\<close>

text \<open>
  The POSIX path functions as they act on the paths of the examples below: paths
  without \<open>.\<close> and \<open>..\<close> segments and without repeated or trailing slashes, resolved
  in the working directory \<open>/cwd\<close>. \<open>win32_sep\<close> differs in the separator only.
\<close>

definition posix_resolve :: "string list \<Rightarrow> string" where
  "posix_resolve segments =
     foldl (\<lambda>resolved segment.
              if segment = [] then resolved
              else if hd segment = CHR ''/'' then segment
              else resolved @ ''/'' @ segment)
       ''/cwd'' segments"

definition posix_dirname :: "string \<Rightarrow> string" where
  "posix_dirname p =
     (if CHR ''/'' \<notin> set p then ''.''
      else rev (drop 1 (dropWhile (\<lambda>c. c \<noteq> CHR ''/'') (rev p))))"

definition posix_join :: "string list \<Rightarrow> string" where
  "posix_join segments =
     foldl (\<lambda>joined segment. if joined = [] then segment else joined @ ''/'' @ segment)
       [] segments"

definition posix :: path_module where
  "posix = \<lparr>pathUtil_sep = CHR ''/'', pathUtil_resolve = posix_resolve,
             pathUtil_normalize = (\<lambda>p. p), pathUtil_join = posix_join,
             pathUtil_dirname = posix_dirname\<rparr>"


text \<open>
  Example files. \<open>ambient_file\<close> is \<^verbatim>\<open>interface Foo {}\<close>: one statement without a
  marker. \<open>exporting_file\<close> is \<^verbatim>\<open>export declare var x: number;\<close>: one exported
  statement whose children are the two modifiers and the declaration list; the span of
  the \<^verbatim>\<open>declare\<close> keyword starts at the space before it. \<open>example_scope\<close> is the scope
  of a run with the package name \<open>pkg\<close>, the base directory \<open>/base\<close> and the defaults.
\<close>

definition leaf :: "SyntaxKind \<Rightarrow> int \<Rightarrow> int \<Rightarrow> Node" where
  "leaf k p e = Node k 0 p e [] None (OtherKind 0) [] []"

definition branch :: "SyntaxKind \<Rightarrow> 32 word \<Rightarrow> int \<Rightarrow> int \<Rightarrow> Node list \<Rightarrow> Node" where
  "branch k f p e cs = Node k f p e [] None (OtherKind 0) [] cs"

definition ambient_file :: SourceFile where
  "ambient_file =
     \<lparr>fileName = ''/base/a.d.ts'',
      sourceText = ''interface Foo {}'',
      statements = [leaf (OtherKind 1) 0 16],
      root = branch SourceFileKind 0 0 16 [leaf (OtherKind 1) 0 16, leaf (OtherKind 2) 16 16]\<rparr>"

definition exporting_statement :: Node where
  "exporting_statement =
     branch (OtherKind 3) 1 0 29
       [leaf (OtherKind 4) 0 6, leaf DeclareKeyword 6 14, leaf (OtherKind 5) 14 28]"

definition exporting_file :: SourceFile where
  "exporting_file =
     \<lparr>fileName = ''/base/b.d.ts'',
      sourceText = ''export declare var x: number;'',
      statements = [exporting_statement],
      root = branch SourceFileKind 0 0 29 [exporting_statement, leaf (OtherKind 2) 29 29]\<rparr>"

definition empty_file :: SourceFile where
  "empty_file =
     \<lparr>fileName = ''/base/e.d.ts'', sourceText = [], statements = [],
      root = branch SourceFileKind 0 0 0 [leaf (OtherKind 2) 0 0]\<rparr>"

definition example_options :: Options where
  "example_options =
     \<lparr>options_baseDir = ''/base'', options_files = [], options_excludes = None,
      options_externs = None, options_eol = None, options_indent = None,
      options_main = None, options_name = ''pkg'', options_out = ''/out/pkg.d.ts'',
      options_target = None\<rparr>"

definition example_scope :: scope where
  "example_scope =
     \<lparr>v_options = example_options,
      v_baseDir = ''/base'', v_eol = LF, v_nonEmptyLineStart = LF, v_indent = TAB,
      v_compilerOptions = \<lparr>co_declaration = True, moduleKind = Some CommonJS,
                            newLine = Some LineFeed, co_target = Some (JsNumber 2),
                            watch = None, diagnostics = None, noEmit = None\<rparr>,
      v_filenames = [], v_excludesMap = []\<rparr>"

text \<open>
  Example runs. \<open>idle_program\<close> is a program whose emit always succeeds and writes
  nothing; \<open>failing_program\<close> skips every emit and reports one syntactic diagnostic.
  \<open>example_env\<close> is a POSIX host without a project configuration; its parser and its
  line map are stand-ins (no statements; line 0, the column the offset), enough for
  one-line files. \<open>secret_file\<close> is the ambient declaration file
  \<open>/base/internal/secret.d.ts\<close>, \<open>failing_file\<close> the source file \<open>/base/bad.ts\<close>.
\<close>

definition idle_program :: "SourceFile list \<Rightarrow> Program" where
  "idle_program sourceFiles =
     \<lparr>getSourceFiles = sourceFiles,
      emit = (\<lambda>sourceFile. \<lparr>written = [], emitSkipped = False, emit_diagnostics = []\<rparr>),
      getSemanticDiagnostics = (\<lambda>sourceFile. []),
      getSyntacticDiagnostics = (\<lambda>sourceFile. []),
      getDeclarationDiagnostics = (\<lambda>sourceFile. [])\<rparr>"

definition example_env :: "Program \<Rightarrow> env" where
  "example_env program =
     \<lparr>pathUtil = posix, os_EOL = LF,
      existsSync = (\<lambda>path. False),
      readConfigFile = (\<lambda>path. ConfigError []),
      createProgram = (\<lambda>filenames options. program),
      createSourceFile = (\<lambda>filename data target.
         \<lparr>fileName = filename, sourceText = data, statements = [],
          root = leaf SourceFileKind 0 (int (length data))\<rparr>),
      getLineAndCharacterOfPosition = (\<lambda>sourceFile position. (0, position)),
      ScriptTarget_Latest = 2\<rparr>"

definition secret_file :: SourceFile where
  "secret_file =
     \<lparr>fileName = ''/base/internal/secret.d.ts'',
      sourceText = ''declare var secret: number;'',
      statements = [branch (OtherKind 3) 2 0 27 [leaf DeclareKeyword 0 7, leaf (OtherKind 5) 7 26]],
      root = branch SourceFileKind 0 0 27
               [branch (OtherKind 3) 2 0 27 [leaf DeclareKeyword 0 7, leaf (OtherKind 5) 7 26],
                leaf (OtherKind 2) 27 27]\<rparr>"

text \<open>
  \<open>importing_file\<close> is the declaration file \<^verbatim>\<open>import {q} from 'ext';\<close> as the compiler
  holds an input file that is not bound yet: its nodes have no parent.
\<close>

definition importing_statement :: Node where
  "importing_statement =
     branch ImportDeclaration 0 0 22
       [leaf (OtherKind 6) 6 10, Node StringLiteral 0 15 21 ''ext'' None (OtherKind 0) [] []]"

definition importing_file :: SourceFile where
  "importing_file =
     \<lparr>fileName = ''/base/c.d.ts'',
      sourceText = ''import {q} from '' @ [CHR 0x27] @ ''ext'' @ [CHR 0x27] @ '';'',
      statements = [importing_statement],
      root = branch SourceFileKind 0 0 22 [importing_statement, leaf (OtherKind 2) 22 22]\<rparr>"

definition banner :: string where
  "banner = ''//'' @ LF
     @ ''// Auto-generated by dts-generator (https://github.com/enlight/dts-generator/)'' @ LF
     @ ''//'' @ LF @ LF"


definition failing_file :: SourceFile where
  "failing_file =
     \<lparr>fileName = ''/base/bad.ts'', sourceText = ''var = ;'', statements = [],
      root = leaf SourceFileKind 0 7\<rparr>"

definition failing_diagnostic :: Diagnostic where
  "failing_diagnostic =
     \<lparr>diagnostic_file = failing_file, diagnostic_start = 4, diagnostic_code = 1003,
      messageText = ''Identifier expected.''\<rparr>"

definition failing_program :: Program where
  "failing_program =
     \<lparr>getSourceFiles = [failing_file, ambient_file],
      emit = (\<lambda>sourceFile. \<lparr>written = [], emitSkipped = True, emit_diagnostics = []\<rparr>),
      getSemanticDiagnostics = (\<lambda>sourceFile. []),
      getSyntacticDiagnostics = (\<lambda>sourceFile. [failing_diagnostic]),
      getDeclarationDiagnostics = (\<lambda>sourceFile. [])\<rparr>"

section \<open>Module ids are one-to-one and separator-free\<close>





section \<open>The tree rewriter splices replacements into the text\<close>

lemma slice_nonneg:
  assumes a: "0 \<le> a" and b: "0 \<le> b"
  shows "slice t a (Some b) = take (nat b - nat a) (drop (nat a) t)"
proof -
  consider "int (length t) \<le> a" | "a < int (length t)" "b \<le> int (length t)"
    | "a < int (length t)" "int (length t) < b" by linarith
  then show ?thesis
  proof cases
    case 1
    with a b show ?thesis by (simp add: slice_def Let_def min_def)
  next
    case 2
    have "nat (b - a) = nat b - nat a" using a b by arith
    with 2 a b show ?thesis by (simp add: slice_def Let_def min_def)
  next
    case 3
    have "length (drop (nat a) t) \<le> nat (int (length t) - a)"
      "length (drop (nat a) t) \<le> nat b - nat a"
      using 3 a unfolding length_drop by arith+
    then have "take (nat (int (length t) - a)) (drop (nat a) t) = drop (nat a) t"
      "take (nat b - nat a) (drop (nat a) t) = drop (nat a) t"
      by (simp_all only: take_all)
    with 3 a b show ?thesis by (simp add: slice_def Let_def min_def)
  qed
qed

lemma slice_nonneg_end: "0 \<le> a \<Longrightarrow> slice t a None = drop (nat a) t"
  by (auto simp: slice_def Let_def min_def)

lemma slice_slice:
  assumes "0 \<le> a" "a \<le> b" "b \<le> c"
  shows "slice t a (Some b) @ slice t b (Some c) = slice t a (Some c)"
proof -
  have n: "nat a + (nat b - nat a) = nat b" "(nat b - nat a) + (nat c - nat b) = nat c - nat a"
    using assms by arith+
  have "take (nat b - nat a) (drop (nat a) t) @ take (nat c - nat b) (drop (nat b) t)
      = take ((nat b - nat a) + (nat c - nat b)) (drop (nat a) t)"
    by (simp add: take_add n(1) add.commute)
  then show ?thesis using assms by (simp add: slice_nonneg n(2))
qed

lemma slice_slice_end:
  assumes "0 \<le> a" "a \<le> b"
  shows "slice t a (Some b) @ slice t b None = slice t a None"
proof -
  have n: "nat a + (nat b - nat a) = nat b" using assms by arith
  have "take (nat b - nat a) (drop (nat a) t) @ drop (nat b - nat a) (drop (nat a) t) = drop (nat a) t"
    by (rule append_take_drop_id)
  then show ?thesis using assms by (simp add: slice_nonneg slice_nonneg_end n add.commute)
qed


lemma nested_spans_unfold:
  "nested_spans n = (pos n \<le> endpos n \<and> nested_spans_from (pos n) (children n) (endpos n))"
  by (cases n) simp

lemma replaced_spans_unfold:
  "replaced_spans r n =
     (case r n of Some x \<Rightarrow> [(pos n, endpos n, x)] | None \<Rightarrow> replaced_spans_list r (children n))"
  by (cases n) (simp split: option.split)

lemma nodes_of_unfold: "nodes_of n = n # nodes_of_list (children n)"
  by (cases n) simp

lemma slice_splice:
  assumes "0 \<le> a" "a \<le> b" "starts_after b spans"
  shows "slice t a (Some b) @ splice t b spans = splice t a spans"
proof (cases spans)
  case Nil
  then show ?thesis using assms by (simp add: slice_slice_end)
next
  case (Cons x rest)
  obtain p e r where x: "x = (p, e, r)" by (cases x)
  have "slice t a (Some b) @ slice t b (Some p) = slice t a (Some p)"
    using Cons x assms by (intro slice_slice) (simp_all add: starts_after_def)
  then show ?thesis using Cons x by (simp flip: append_assoc)
qed

lemma starts_after_mono: "a \<le> b \<Longrightarrow> starts_after b spans \<Longrightarrow> starts_after a spans"
  by (auto simp: starts_after_def split: list.splits)

lemma starts_after_append:
  "starts_after a (xs @ tail) \<longleftrightarrow> (if xs = [] then starts_after a tail else starts_after a xs)"
  by (cases xs) (auto simp: starts_after_def)

lemma starts_after_spans:
  "nested_spans n \<Longrightarrow> replaced_spans r n \<noteq> [] \<Longrightarrow> starts_after (pos n) (replaced_spans r n)"
  "nested_spans_from lo cs hi \<Longrightarrow> lo \<le> hi \<and> 
     (replaced_spans_list r cs \<noteq> [] \<longrightarrow> starts_after lo (replaced_spans_list r cs))"
proof (induction n and lo cs hi rule: nested_spans_nested_spans_from.induct)
  case (1 k f p e t pk mk et cs)
  then show ?case by (auto simp: starts_after_def split: option.splits)
next
  case (2 lo hi)
  then show ?case by simp
next
  case (3 lo c cs hi)
  from "3.prems" have c: "lo \<le> pos c" "nested_spans c" "nested_spans_from (endpos c) cs hi"
    by simp_all
  have pe: "pos c \<le> endpos c" using c(2) by (simp add: nested_spans_unfold)
  from "3.IH"(2)[OF c(3)] have t: "endpos c \<le> hi"
    "replaced_spans_list r cs \<noteq> [] \<Longrightarrow> starts_after (endpos c) (replaced_spans_list r cs)"
    by simp_all
  show ?case
  proof (cases "replaced_spans r c = []")
    case True
    then show ?thesis using c pe t by (auto intro: starts_after_mono[of lo "endpos c"])
  next
    case False
    with "3.IH"(1)[OF c(2)] have "starts_after (pos c) (replaced_spans r c)" by simp
    with c(1) False pe t(1) show ?thesis
      by (auto simp: starts_after_append intro: starts_after_mono[of lo "pos c"])
  qed
qed


lemma starts_after_children:
  assumes "nested_spans_from lo cs hi" "c \<le> lo" "c' \<le> hi" "c \<le> c'" "starts_after c' tail"
  shows "starts_after c (replaced_spans_list r cs @ tail)"
proof (cases "replaced_spans_list r cs = []")
  case True
  then show ?thesis using assms(4,5) by (simp add: starts_after_mono)
next
  case False
  with starts_after_spans(2)[OF assms(1), of r]
  have "starts_after lo (replaced_spans_list r cs)" by simp
  with False assms(2) show ?thesis
    by (simp add: starts_after_append starts_after_mono)
qed

lemma visit_splice:
  "nested_spans n \<Longrightarrow> 0 \<le> cursorPosition st \<Longrightarrow> cursorPosition st \<le> pos n \<Longrightarrow>
     pos n \<le> cursorPosition (visit src r n st)
   \<and> cursorPosition (visit src r n st) \<le> endpos n
   \<and> (\<forall>tail. starts_after (cursorPosition (visit src r n st)) tail \<longrightarrow>
          code (visit src r n st) @ splice src (cursorPosition (visit src r n st)) tail
          = code st @ splice src (cursorPosition st) (replaced_spans r n @ tail))"
  "\<And>lo hi. nested_spans_from lo cs hi \<Longrightarrow> 0 \<le> cursorPosition st \<Longrightarrow> cursorPosition st \<le> lo \<Longrightarrow>
     cursorPosition st \<le> cursorPosition (visitEach src r cs st)
   \<and> cursorPosition (visitEach src r cs st) \<le> hi
   \<and> (\<forall>tail. starts_after (cursorPosition (visitEach src r cs st)) tail \<longrightarrow>
          code (visitEach src r cs st) @ splice src (cursorPosition (visitEach src r cs st)) tail
          = code st @ splice src (cursorPosition st) (replaced_spans_list r cs @ tail))"
proof (induction src r n st and src r cs st rule: visit_visitEach.induct)
  case (1 src r n st)
  have ne: "pos n \<le> endpos n" and ch: "nested_spans_from (pos n) (children n) (endpos n)"
    using "1.prems"(1) by (simp_all add: nested_spans_unfold)
  show ?case
  proof (cases "r n")
    case (Some x)
    then show ?thesis using ne
      by (simp add: visit.simps readThrough_def skip_def replaced_spans_unfold)
  next
    case None
    let ?st1 = "readThrough src n st"
    have st1: "cursorPosition ?st1 = pos n"
      "code ?st1 = code st @ slice src (cursorPosition st) (Some (pos n))"
      by (simp_all add: readThrough_def)
    have v: "visit src r n st = visitEach src r (children n) ?st1"
      using None by (simp add: visit.simps)
    have p0: "0 \<le> pos n" using "1.prems" by simp
    from "1.IH"[OF refl None ch] p0 st1(1)
    have ih: "pos n \<le> cursorPosition (visit src r n st)"
      "cursorPosition (visit src r n st) \<le> endpos n"
      "\<And>tail. starts_after (cursorPosition (visit src r n st)) tail \<Longrightarrow>
          code (visit src r n st) @ splice src (cursorPosition (visit src r n st)) tail
          = code ?st1 @ splice src (pos n) (replaced_spans_list r (children n) @ tail)"
      unfolding v by simp_all
    have "code (visit src r n st) @ splice src (cursorPosition (visit src r n st)) tail
          = code st @ splice src (cursorPosition st) (replaced_spans r n @ tail)"
      if t: "starts_after (cursorPosition (visit src r n st)) tail" for tail
    proof -
      have sa: "starts_after (pos n) (replaced_spans_list r (children n) @ tail)"
        using ch ih(1,2) t by (intro starts_after_children[where lo="pos n" and hi="endpos n"]) simp_all
      have "code (visit src r n st) @ splice src (cursorPosition (visit src r n st)) tail
          = code st @ (slice src (cursorPosition st) (Some (pos n))
              @ splice src (pos n) (replaced_spans_list r (children n) @ tail))"
        using ih(3)[OF t] st1(2) by simp
      also have "\<dots> = code st @ splice src (cursorPosition st) (replaced_spans_list r (children n) @ tail)"
        using slice_splice[OF "1.prems"(2,3) sa] by simp
      finally show ?thesis using None by (simp add: replaced_spans_unfold)
    qed
    with ih(1,2) show ?thesis by blast
  qed
next
  case (2 src r st lo hi)
  then show ?case by simp
next
  case (3 src r c cs st lo hi)
  let ?st' = "visit src r c st"
  let ?st'' = "visitEach src r cs ?st'"
  from "3.prems" have c: "lo \<le> pos c" "nested_spans c" "nested_spans_from (endpos c) cs hi"
    by simp_all
  from "3.IH"(1)[OF c(2) "3.prems"(2)] "3.prems"(3) c(1)
  have ih1: "pos c \<le> cursorPosition ?st'" "cursorPosition ?st' \<le> endpos c"
    "\<And>tail. starts_after (cursorPosition ?st') tail \<Longrightarrow>
       code ?st' @ splice src (cursorPosition ?st') tail
       = code st @ splice src (cursorPosition st) (replaced_spans r c @ tail)"
    by simp_all
  have p0: "0 \<le> cursorPosition ?st'" using ih1(1) c(1) "3.prems"(2,3) by linarith
  from "3.IH"(2)[OF c(3) p0 ih1(2)]
  have ih2: "cursorPosition ?st' \<le> cursorPosition ?st''" "cursorPosition ?st'' \<le> hi"
    "\<And>tail. starts_after (cursorPosition ?st'') tail \<Longrightarrow>
       code ?st'' @ splice src (cursorPosition ?st'') tail
       = code ?st' @ splice src (cursorPosition ?st') (replaced_spans_list r cs @ tail)"
    by simp_all
  have "code ?st'' @ splice src (cursorPosition ?st'') tail
        = code st @ splice src (cursorPosition st) (replaced_spans_list r (c # cs) @ tail)"
    if t: "starts_after (cursorPosition ?st'') tail" for tail
  proof -
    have sa: "starts_after (cursorPosition ?st') (replaced_spans_list r cs @ tail)"
      using c(3) ih1(2) ih2 t
      by (intro starts_after_children[where lo="endpos c" and hi=hi]) simp_all
    show ?thesis using ih2(3)[OF t] ih1(3)[OF sa] by simp
  qed
  moreover have "cursorPosition st \<le> cursorPosition ?st''"
    using ih1(1) ih2(1) c(1) "3.prems"(3) by linarith
  ultimately show ?case using ih2(2) by simp
qed

lemma processTree_splice:
  assumes "nested_spans (root sourceFile)" and "0 \<le> pos (root sourceFile)"
  shows "processTree sourceFile replacer
         = splice (sourceText sourceFile) 0 (replaced_spans replacer (root sourceFile))"
proof -
  let ?st = "visit (sourceText sourceFile) replacer (root sourceFile) \<lparr>code = [], cursorPosition = 0\<rparr>"
  from visit_splice(1)[OF assms(1), of "\<lparr>code = [], cursorPosition = 0\<rparr>"
      "sourceText sourceFile" replacer] assms(2)
  have "\<forall>tail. starts_after (cursorPosition ?st) tail \<longrightarrow>
          code ?st @ splice (sourceText sourceFile) (cursorPosition ?st) tail
          = splice (sourceText sourceFile) 0 (replaced_spans replacer (root sourceFile) @ tail)"
    by simp
  then have "code ?st @ splice (sourceText sourceFile) (cursorPosition ?st) []
        = splice (sourceText sourceFile) 0 (replaced_spans replacer (root sourceFile) @ [])"
    by (rule allE[where x="[]"]) (simp add: starts_after_def)
  then show ?thesis by (simp add: processTree_def Let_def)
qed

lemma replaced_spans_none:
  "(\<forall>m \<in> set (nodes_of n). r m = None) \<Longrightarrow> replaced_spans r n = []"
  "(\<forall>m \<in> set (nodes_of_list cs). r m = None) \<Longrightarrow> replaced_spans_list r cs = []"
  by (induction n and cs rule: nodes_of_nodes_of_list.induct) auto

lemma replaced_spans_one:
  assumes "r node = Some x" 
  shows "(\<forall>m \<in> set (nodes_of n). m \<noteq> node \<longrightarrow> r m = None) \<Longrightarrow> count_list (nodes_of n) node = 1 \<Longrightarrow>
           replaced_spans r n = [(pos node, endpos node, x)]"
    "(\<forall>m \<in> set (nodes_of_list cs). m \<noteq> node \<longrightarrow> r m = None) \<Longrightarrow> count_list (nodes_of_list cs) node = 1 \<Longrightarrow>
           replaced_spans_list r cs = [(pos node, endpos node, x)]"
proof (induction n and cs rule: nodes_of_nodes_of_list.induct)
  case (1 k f p e t pk mk et cs)
  show ?case
  proof (cases "Node k f p e t pk mk et cs = node")
    case True
    then show ?thesis using assms by auto
  next
    case False
    then show ?thesis using 1 by auto
  qed
next
  case 2
  then show ?case by simp
next
  case (3 c cs)
  from "3.prems"(2) consider
      "count_list (nodes_of c) node = 1" "count_list (nodes_of_list cs) node = 0"
    | "count_list (nodes_of c) node = 0" "count_list (nodes_of_list cs) node = 1"
    by (auto simp: add_eq_if split: if_splits) 
  then show ?case
  proof cases
    case 1
    then have "node \<notin> set (nodes_of_list cs)" by (simp add: count_list_0_iff)
    with "3.prems"(1) have "replaced_spans_list r cs = []"
      by (intro replaced_spans_none) auto
    with "3.IH"(1) "3.prems"(1) 1 show ?thesis by simp
  next
    case 2
    then have "node \<notin> set (nodes_of c)" by (simp add: count_list_0_iff)
    with "3.prems"(1) have "replaced_spans r c = []"
      by (intro replaced_spans_none) auto
    with "3.IH"(2) "3.prems"(1) 2 show ?thesis by simp
  qed
qed

text \<open>
  Claim C2: on the syntax tree of a text (spans nested and ordered as the parser builds
  them, the root starting at or after position 0), a replacer that returns \<^verbatim>\<open>null\<close>
  for every node makes \<^verbatim>\<open>processTree\<close> return the text itself.
\<close>

theorem processTree_identity:
  assumes "nested_spans (root sourceFile)" and "0 \<le> pos (root sourceFile)"
  shows "processTree sourceFile (\<lambda>node. None) = sourceText sourceFile"
  using processTree_splice[OF assms, of "\<lambda>node. None"]
  by (simp add: replaced_spans_none slice_nonneg_end)

theorem processTree_identity_witness:
  "nested_spans (root exporting_file) \<and> 0 \<le> pos (root exporting_file)
   \<and> processTree exporting_file (\<lambda>node. None) = ''export declare var x: number;''"
proof -
  have h: "nested_spans (root exporting_file)" "0 \<le> pos (root exporting_file)"
    by (simp_all add: exporting_file_def exporting_statement_def leaf_def branch_def)
  show ?thesis using h processTree_identity[OF h] by (simp add: exporting_file_def)
qed

text \<open>
  Claim C3: when the replacer returns a string for one node of such a tree, a node that
  occurs once in it, and \<^verbatim>\<open>null\<close> for every other node, the output is the text before
  the node's \<^verbatim>\<open>pos\<close>, the replacement, and the text from the node's \<^verbatim>\<open>end\<close> on.
\<close>

theorem processTree_replace_one:
  assumes "nested_spans (root sourceFile)" and "0 \<le> pos (root sourceFile)"
    and "count_list (nodes_of (root sourceFile)) node = 1"
    and "replacer node = Some replacement"
    and "\<forall>other \<in> set (nodes_of (root sourceFile)). other \<noteq> node \<longrightarrow> replacer other = None"
  shows "processTree sourceFile replacer
         = slice (sourceText sourceFile) 0 (Some (pos node)) @ replacement
           @ slice (sourceText sourceFile) (endpos node) None"
  using processTree_splice[OF assms(1,2), of replacer]
    replaced_spans_one(1)[OF assms(4,5,3)]
  by simp

theorem processTree_replace_one_witness:
  "nested_spans (root exporting_file) \<and> 0 \<le> pos (root exporting_file)
   \<and> count_list (nodes_of (root exporting_file)) (leaf DeclareKeyword 6 14) = 1
   \<and> processTree exporting_file (\<lambda>m. if m = leaf DeclareKeyword 6 14 then Some '' protected'' else None)
       = ''export protected var x: number;''"
proof -
  let ?r = "\<lambda>m. if m = leaf DeclareKeyword 6 14 then Some '' protected'' else None"
  have h: "nested_spans (root exporting_file)" "0 \<le> pos (root exporting_file)"
    "count_list (nodes_of (root exporting_file)) (leaf DeclareKeyword 6 14) = 1"
    "?r (leaf DeclareKeyword 6 14) = Some '' protected''"
    "\<forall>other \<in> set (nodes_of (root exporting_file)). other \<noteq> leaf DeclareKeyword 6 14 \<longrightarrow> ?r other = None"
    by (simp_all add: exporting_file_def exporting_statement_def leaf_def branch_def)
  show ?thesis using h(1,2,3) processTree_replace_one[OF h]
    by (simp add: exporting_file_def leaf_def slice_def)
qed


lemma visit_throwing_returns:
  "(\<forall>m \<in> set (nodes_of n). \<not> isl (replacer m)) \<Longrightarrow>
     visit_throwing src replacer n st = Inr (visit src (returned replacer) n st)"
  "(\<forall>m \<in> set (nodes_of_list cs). \<not> isl (replacer m)) \<Longrightarrow>
     visitEach_throwing src replacer cs st = Inr (visitEach src (returned replacer) cs st)"
proof (induction n and cs arbitrary: st and st rule: nodes_of_nodes_of_list.induct)
  case (1 k f p e t pk mk et cs)
  let ?n = "Node k f p e t pk mk et cs"
  from "1.prems" have here: "\<not> isl (replacer ?n)"
    and below: "\<forall>m \<in> set (nodes_of_list cs). \<not> isl (replacer m)" by simp_all
  from here obtain v where v: "replacer ?n = Inr v" by (cases "replacer ?n") simp_all
  show ?case
  proof (cases v)
    case None
    with v "1.IH"[OF below] show ?thesis
      by (simp add: visit_throwing.simps[of _ _ ?n] visit.simps[of _ _ ?n] returned_def Let_def)
  next
    case (Some x)
    with v show ?thesis
      by (simp add: visit_throwing.simps[of _ _ ?n] visit.simps[of _ _ ?n] returned_def Let_def)
  qed
next
  case 2
  then show ?case by simp
next
  case (3 c cs)
  then show ?case by simp
qed

lemma processTree_throwing_returns:
  "(\<forall>m \<in> set (nodes_of (root sourceFile)). \<not> isl (replacer m)) \<Longrightarrow>
     processTree_throwing sourceFile replacer = Inr (processTree sourceFile (returned replacer))"
  by (simp add: processTree_throwing_def processTree_def visit_throwing_returns(1) Let_def)

text \<open>
  Claim C10: a node the replacer replaces is written as the text up to its \<^verbatim>\<open>pos\<close>
  followed by the replacement, and the cursor moves to its \<^verbatim>\<open>end\<close>; over the whole
  tree the output is the text with each replaced span, from \<^verbatim>\<open>pos\<close> to \<^verbatim>\<open>end\<close>,
  exchanged for its replacement; that span is the leading trivia followed by the node's
  own text, so the replacement stands in for both; and the replacements
  \<^verbatim>\<open>writeDeclaration\<close> makes for module references bring their own leading space.
\<close>

theorem processTree_omits_leading_trivia:
  assumes "nested_spans (root sourceFile)" and "0 \<le> pos (root sourceFile)"
  shows "(replacer node = Some replacement \<longrightarrow>
            visit (sourceText sourceFile) replacer node st
            = \<lparr>code = code st
                      @ slice (sourceText sourceFile) (cursorPosition st) (Some (pos node))
                      @ replacement,
               cursorPosition = endpos node\<rparr>)
       \<and> processTree sourceFile replacer
           = splice (sourceText sourceFile) 0 (replaced_spans replacer (root sourceFile))
       \<and> (0 \<le> pos node \<and> pos node \<le> start \<and> start \<le> endpos node \<longrightarrow>
            slice (sourceText sourceFile) (pos node) (Some (endpos node))
            = leadingTrivia (sourceText sourceFile) node start
              @ ownText (sourceText sourceFile) node start)
       \<and> (replacer_of P mid node = Inr (Some replacement) \<and> kind node \<noteq> DeclareKeyword \<longrightarrow>
            take 1 replacement = '' '')"
proof -
  have "visit (sourceText sourceFile) replacer node st
        = \<lparr>code = code st
                  @ slice (sourceText sourceFile) (cursorPosition st) (Some (pos node))
                  @ replacement,
           cursorPosition = endpos node\<rparr>"
    if "replacer node = Some replacement"
    using that by (simp add: visit.simps readThrough_def skip_def)
  moreover have "take 1 replacement = '' ''"
    if "replacer_of P mid node = Inr (Some replacement)" "kind node \<noteq> DeclareKeyword"
    using that by (auto simp: replacer_of_def split: if_splits option.splits)
  ultimately show ?thesis
    using processTree_splice[OF assms, of replacer]
    by (simp add: leadingTrivia_def ownText_def slice_slice)
qed

text \<open>
  In \<open>exporting_file\<close> the \<^verbatim>\<open>declare\<close> keyword is replaced by the empty string: the
  space before it, its leading trivia, goes with it.
\<close>

theorem processTree_omits_leading_trivia_witness:
  "nested_spans (root exporting_file) \<and> 0 \<le> pos (root exporting_file)
   \<and> replacer_of posix ''pkg/b'' (leaf DeclareKeyword 6 14) = Inr (Some [])
   \<and> leadingTrivia (sourceText exporting_file) (leaf DeclareKeyword 6 14) 7 = '' ''
   \<and> ownText (sourceText exporting_file) (leaf DeclareKeyword 6 14) 7 = ''declare''
   \<and> processTree exporting_file (returned (replacer_of posix ''pkg/b''))
       = ''export var x: number;''"
proof -
  have h: "nested_spans (root exporting_file)" "0 \<le> pos (root exporting_file)"
    by (simp_all add: exporting_file_def exporting_statement_def leaf_def branch_def)
  have r: "replaced_spans (returned (replacer_of posix ''pkg/b'')) (root exporting_file)
           = [(6, 14, [])]"
    by (simp add: exporting_file_def exporting_statement_def leaf_def branch_def replacer_of_def
        returned_def)
  have e: "replacer_of posix ''pkg/b'' (leaf DeclareKeyword 6 14) = Inr (Some [])"
    by (simp add: replacer_of_def leaf_def)
  have "processTree exporting_file (returned (replacer_of posix ''pkg/b''))
        = splice (sourceText exporting_file) 0
            (replaced_spans (returned (replacer_of posix ''pkg/b'')) (root exporting_file))"
    using processTree_omits_leading_trivia[OF h] by blast
  then have p: "processTree exporting_file (returned (replacer_of posix ''pkg/b''))
                = ''export var x: number;''"
    unfolding r by (simp add: exporting_file_def slice_def)
  have t: "leadingTrivia (sourceText exporting_file) (leaf DeclareKeyword 6 14) 7 = '' ''"
    "ownText (sourceText exporting_file) (leaf DeclareKeyword 6 14) 7 = ''declare''"
    by (simp_all add: leadingTrivia_def ownText_def exporting_file_def leaf_def slice_def)
  show ?thesis using h e p t by simp
qed

section \<open>Classification and ambient files\<close>

lemma export_bit: "(w :: 32 word) AND NodeFlags_Export \<noteq> 0 \<longleftrightarrow> bit w 0"
  by (simp add: NodeFlags_Export_def and_one_eq bit_0 odd_iff_mod_2_eq_one)

text \<open>
  Claim C4: a file is an external module exactly when one of its top-level statements
  has the export flag, is an import-equals declaration of an external module reference,
  an import declaration, an export assignment or an export declaration; a file without
  statements is not external. The classifier is a total function to \<^typ>\<open>bool\<close>.
\<close>

theorem isExternalModule_iff:
  "(isExternalModule sourceFile \<longleftrightarrow>
      (\<exists>node \<in> set (statements sourceFile).
          bit (flags node) 0
        \<or> (kind node = ImportEqualsDeclaration
             \<and> moduleReference_kind node = ExternalModuleReference)
        \<or> kind node = ImportDeclaration
        \<or> kind node = ExportAssignment
        \<or> kind node = ExportDeclaration))
   \<and> (statements sourceFile = [] \<longrightarrow> \<not> isExternalModule sourceFile)"
  by (auto simp: isExternalModule_def externalMarker_def list_ex_iff export_bit)

theorem isExternalModule_iff_witness:
  "\<not> isExternalModule empty_file \<and> isExternalModule exporting_file \<and> \<not> isExternalModule ambient_file"
  using isExternalModule_iff[of empty_file] isExternalModule_iff[of exporting_file]
    isExternalModule_iff[of ambient_file]
  by (simp add: empty_file_def exporting_file_def ambient_file_def exporting_statement_def
      leaf_def branch_def)

text \<open>
  Claim C9: for a file that is not an external module, \<^verbatim>\<open>writeDeclaration\<close> appends the
  text of the file to the output and nothing else, and returns; the file is an argument
  only.
\<close>

theorem writeDeclaration_ambient:
  assumes "\<not> isExternalModule declarationFile"
  shows "writeDeclaration P V declarationFile written_so_far
         = (written_so_far @ sourceText declarationFile, None)"
  using assms by (simp add: writeDeclaration_def)

theorem writeDeclaration_ambient_witness:
  "\<not> isExternalModule ambient_file
   \<and> writeDeclaration posix example_scope ambient_file ''// banner''
       = (''// bannerinterface Foo {}'', None)"
proof -
  have h: "\<not> isExternalModule ambient_file"
    by (simp add: isExternalModule_def externalMarker_def ambient_file_def leaf_def
        NodeFlags_Export_def)
  show ?thesis
    using h writeDeclaration_ambient[OF h, of posix example_scope "''// banner''"]
    by (simp add: ambient_file_def)
qed


section \<open>Re-indentation of a module body\<close>

lemma getSubstitution_plain:
  "CHR ''$'' \<notin> set template \<Longrightarrow> getSubstitution m p f template = template"
  by (induction m p f template rule: getSubstitution.induct) auto

lemma getSubstitution_matched:
  "CHR ''$'' \<notin> set indent \<Longrightarrow> getSubstitution m p f (''$&'' @ indent) = m @ indent"
  by (simp add: getSubstitution_plain)













section \<open>The run: compile failures, excludes, the main alias\<close>

lemma getError_message:
  "error_message (getError E diags)
   = ''Declaration generation failed''
     @ concat (map (\<lambda>diagnostic.
          [CHR 0x0A] @ fileName (diagnostic_file diagnostic) @ ''(''
          @ string_of_nat
              (fst (getLineAndCharacterOfPosition E (diagnostic_file diagnostic)
                      (diagnostic_start diagnostic)) + 1)
          @ '',''
          @ string_of_nat
              (snd (getLineAndCharacterOfPosition E (diagnostic_file diagnostic)
                      (diagnostic_start diagnostic)) + 1)
          @ ''): error TS'' @ string_of_nat (diagnostic_code diagnostic)
          @ '': '' @ messageText diagnostic) diags)"
proof -
  have "foldl (\<lambda>message d. message @ g d) start diags = start @ concat (map g diags)"
    for g :: "Diagnostic \<Rightarrow> string" and start
    by (induction diags arbitrary: start) simp_all
  then show ?thesis by (simp add: getError_def Let_def)
qed


lemma setParentNodes_parent:
  "\<forall>m \<in> set (nodes_of (setParentNodes parent n)). parent_kind m \<noteq> None"
  "\<forall>m \<in> set (nodes_of_list (map (setParentNodes parent) ns)). parent_kind m \<noteq> None"
  by (induction n and ns arbitrary: parent and parent rule: nodes_of_nodes_of_list.induct)
    (simp_all, blast)

lemma replacer_of_returns:
  "kind m \<noteq> StringLiteral \<or> parent_kind m \<noteq> None \<Longrightarrow> \<not> isl (replacer_of P mid m)"
  by (auto simp: replacer_of_def split: option.splits)

lemma writeDeclaration_parsed:
  "snd (writeDeclaration P V (parsed_with_parents sourceFile) written_so_far) = None"
proof -
  have "\<forall>m \<in> set (nodes_of (root (parsed_with_parents sourceFile))). \<not> isl (replacer_of P mid m)"
    for mid
    using setParentNodes_parent(2)[of SourceFileKind "children (root sourceFile)"]
    by (auto simp: parsed_with_parents_def intro!: replacer_of_returns)
  then show ?thesis
    by (simp add: writeDeclaration_def Let_def processTree_throwing_returns)
qed

lemma writeFiles_returns:
  "\<exists>st'. writeFiles E V ws st = (st', None) \<and> messages st' = messages st
         \<and> rejected st' = rejected st"
proof (induction ws arbitrary: st)
  case Nil
  then show ?case by simp
next
  case (Cons w ws)
  obtain filename data where w: "w = (filename, data)" by (cases w)
  have "\<exists>st1. writeFile E V filename data st = (st1, None) \<and> messages st1 = messages st
              \<and> rejected st1 = rejected st"
    using writeDeclaration_parsed[of "pathUtil E" V
        "createSourceFile E filename data (co_target (v_compilerOptions V))" "sink st"]
    by (auto simp: writeFile_def split: prod.splits)
  then obtain st1 where st1: "writeFile E V filename data st = (st1, None)"
    "messages st1 = messages st" "rejected st1 = rejected st" by blast
  from Cons.IH[of st1] st1 w show ?case by simp
qed

text \<open>
  Claim C5: when the emit of a source file the run compiles (under the base directory,
  not excluded, not a declaration file) is skipped or reports diagnostics, and the
  promise is not rejected yet, the iteration ends at that file whatever files follow;
  the only message sent for it is its \<open>Processing\<close> line; the promise is rejected, and
  stays so to the end of the run, with one error named \<open>EmitterError\<close> whose message
  is the heading followed by one line per diagnostic of the file, each giving the
  diagnostic's file name, line and column (both counted from one), code and text.
\<close>

theorem compile_failure_stops_run:
  assumes "indexOf (pathUtil_normalize (pathUtil E) (fileName sourceFile)) (v_baseDir V) = 0"
    and "filenameToMid (pathUtil E) (pathUtil_normalize (pathUtil E) (fileName sourceFile))
         \<notin> set (v_excludesMap V)"
    and "slice (fileName sourceFile) (- 5) None \<noteq> ''.d.ts''"
    and "emitSkipped (emit program sourceFile) \<or> emit_diagnostics (emit program sourceFile) \<noteq> []"
    and "rejected st = None"
    and "diags = emit_diagnostics (emit program sourceFile)
                 @ getSemanticDiagnostics program sourceFile
                 @ getSyntacticDiagnostics program sourceFile
                 @ getDeclarationDiagnostics program sourceFile"
  shows "some_sourceFiles E V program (sourceFile # later) st
         = some_sourceFiles E V program [sourceFile] st
       \<and> rejected (write_main V (some_sourceFiles E V program (sourceFile # later) st))
           = Some (getError E diags)
       \<and> messages (some_sourceFiles E V program (sourceFile # later) st)
           = messages st @ [''Processing '' @ fileName sourceFile]
       \<and> error_name (getError E diags) = ''EmitterError''
       \<and> error_message (getError E diags)
           = ''Declaration generation failed''
             @ concat (map (\<lambda>diagnostic.
                  [CHR 0x0A] @ fileName (diagnostic_file diagnostic) @ ''(''
                  @ string_of_nat
                      (fst (getLineAndCharacterOfPosition E (diagnostic_file diagnostic)
                              (diagnostic_start diagnostic)) + 1)
                  @ '',''
                  @ string_of_nat
                      (snd (getLineAndCharacterOfPosition E (diagnostic_file diagnostic)
                              (diagnostic_start diagnostic)) + 1)
                  @ ''): error TS'' @ string_of_nat (diagnostic_code diagnostic)
                  @ '': '' @ messageText diagnostic) diags)"
proof -
  define st1 where "st1 = sendMessage (''Processing '' @ fileName sourceFile) st"
  obtain st2 where st2: "writeFiles E V (written (emit program sourceFile)) st1 = (st2, None)"
    "messages st2 = messages st1" "rejected st2 = rejected st1"
    using writeFiles_returns by blast
  have each: "eachSourceFile E V program sourceFile st = (reject (getError E diags) st2, True)"
    using assms(1-4,6) st2(1)
    by (simp add: eachSourceFile_def processSourceFile_def Let_def st1_def)
  have r: "rejected (reject (getError E diags) st2) = Some (getError E diags)"
    "messages (reject (getError E diags) st2) = messages st @ [''Processing '' @ fileName sourceFile]"
    using assms(5) st2(2,3) by (simp_all add: reject_def st1_def sendMessage_def)
  have m: "rejected (write_main V s) = rejected s" for s
    by (simp add: write_main_def sendMessage_def output_write_def Let_def)
  show ?thesis
    using each r m getError_message[of E diags] by (simp add: getError_def Let_def)
qed

text \<open>
  The program whose first file fails: the second file is not processed, and the error
  names \<open>/base/bad.ts\<close>, line 1, column 5.
\<close>

theorem compile_failure_stops_run_witness:
  "some_sourceFiles (example_env failing_program) example_scope failing_program
     [failing_file, ambient_file]
     \<lparr>sink = banner, messages = [], rejected = None, executor_thrown = False\<rparr>
   = \<lparr>sink = banner, messages = [''Processing /base/bad.ts''],
      rejected = Some \<lparr>error_message = ''Declaration generation failed'' @ LF
                          @ ''/base/bad.ts(1,5): error TS1003: Identifier expected.'',
                        error_name = ''EmitterError''\<rparr>,
      executor_thrown = False\<rparr>"
proof -
  let ?E = "example_env failing_program"
  let ?st = "\<lparr>sink = banner, messages = [], rejected = None, executor_thrown = False\<rparr>"
  have h: "indexOf (pathUtil_normalize (pathUtil ?E) (fileName failing_file)) (v_baseDir example_scope) = 0"
    "filenameToMid (pathUtil ?E) (pathUtil_normalize (pathUtil ?E) (fileName failing_file))
         \<notin> set (v_excludesMap example_scope)"
    "slice (fileName failing_file) (- 5) None \<noteq> ''.d.ts''"
    "emitSkipped (emit failing_program failing_file) \<or> emit_diagnostics (emit failing_program failing_file) \<noteq> []"
    "rejected ?st = None"
    "[failing_diagnostic] = emit_diagnostics (emit failing_program failing_file)
                 @ getSemanticDiagnostics failing_program failing_file
                 @ getSyntacticDiagnostics failing_program failing_file
                 @ getDeclarationDiagnostics failing_program failing_file"
    by (simp_all add: example_env_def posix_def failing_file_def example_scope_def indexOf_def
        slice_def failing_program_def)
  have n: "string_of_nat (Suc 0) = ''1''" "string_of_nat 5 = ''5''" "string_of_nat 1003 = ''1003''"
    by code_simp+
  let ?r = "some_sourceFiles ?E example_scope failing_program [failing_file, ambient_file] ?st"
  note t = compile_failure_stops_run[OF h, of "[ambient_file]"]
  have e: "?r = some_sourceFiles ?E example_scope failing_program [failing_file] ?st"
    using t[THEN conjunct1] .
  have s: "sink (some_sourceFiles ?E example_scope failing_program [failing_file] ?st) = banner"
    "executor_thrown (some_sourceFiles ?E example_scope failing_program [failing_file] ?st) = False"
    by (simp_all add: eachSourceFile_def processSourceFile_def example_env_def posix_def
        failing_file_def example_scope_def indexOf_def slice_def failing_program_def
        sendMessage_def reject_def Let_def)
  have m: "messages ?r = [''Processing /base/bad.ts'']"
    using t[THEN conjunct2, THEN conjunct2, THEN conjunct1]
    by (simp add: failing_file_def del: some_sourceFiles.simps)
  have w: "rejected (write_main example_scope ?r) = rejected ?r"
    by (simp add: write_main_def sendMessage_def output_write_def Let_def)
  have g: "getError ?E [failing_diagnostic]
           = \<lparr>error_message = ''Declaration generation failed'' @ LF
                          @ ''/base/bad.ts(1,5): error TS1003: Identifier expected.'',
              error_name = ''EmitterError''\<rparr>"
    by (simp add: getError_def Let_def failing_diagnostic_def failing_file_def example_env_def
        n LF_def)
  have r: "rejected ?r = Some (getError ?E [failing_diagnostic])"
    using t[THEN conjunct2, THEN conjunct1] w by (simp del: some_sourceFiles.simps)
  have s': "sink ?r = banner" "executor_thrown ?r = False"
    using e s by (simp_all del: some_sourceFiles.simps)
  show ?thesis
    using s' m r g by (cases ?r) (simp del: some_sourceFiles.simps)
qed

lemmas run_simps =
  generate_def prepare_def assemble_def bundle_files_def example_env_def
  idle_program_def example_options_def banner_def posix_def
  posix_resolve_def posix_join_def getFilenames_def truthy_def truthy_number_def
  write_banner_def write_externs_def write_main_def output_write_def sendMessage_def
  eachSourceFile_def processSourceFile_def filenameToMid_def indexOf_def
  LF_def TAB_def CRLF_def Let_def main_alias_def

text \<open>
  Claim C6 holds of \<^verbatim>\<open>src/index.js\<close>: there a file under the base directory whose
  relative name matches a pattern of \<^verbatim>\<open>options.excludes\<close> gets the \<open>Excluding\<close> message
  and nothing else.
\<close>

lemma eachSourceFile_js_excluding:
  assumes "indexOf (pathUtil_normalize (pathUtil E) (fileName sourceFile)) (v_baseDir V) = 0"
    and "options_excludes (v_options V) = Some patterns"
    and "multimatch (relative (v_baseDir V) (fileName sourceFile)) patterns \<noteq> []"
  shows "eachSourceFile_js multimatch relative E V program sourceFile st
         = (st\<lparr>messages := messages st
                  @ [''Excluding '' @ relative (v_baseDir V) (fileName sourceFile)]\<rparr>, False)"
  using assms by (simp add: eachSourceFile_js_def sendMessage_def Let_def)

text \<open>
  Claim C6 fails of \<^verbatim>\<open>src/index.ts\<close>, which resolves each entry of
  \<^verbatim>\<open>options.excludes\<close> to one path and passes over the file of that path without a
  message. With the pattern \<open>internal/*.d.ts\<close> the file
  \<open>/base/internal/secret.d.ts\<close> is processed and its text written; with the entry
  \<open>internal/secret.d.ts\<close> it is passed over and no message is sent.
\<close>

theorem excludes_in_index_ts:
  "generate (example_env (idle_program [secret_file]))
     (example_options\<lparr>options_excludes := Some [''internal/*.d.ts'']\<rparr>)
   = Inr \<lparr>sink = banner @ ''declare var secret: number;'',
          messages = [''Processing /base/internal/secret.d.ts''], rejected = None,
          executor_thrown = False\<rparr>
   \<and> generate (example_env (idle_program [secret_file]))
       (example_options\<lparr>options_excludes := Some [''internal/secret.d.ts'']\<rparr>)
     = Inr \<lparr>sink = banner, messages = [], rejected = None, executor_thrown = False\<rparr>"
  by (simp add: run_simps secret_file_def slice_def writeDeclaration_def isExternalModule_def
      externalMarker_def NodeFlags_Export_def branch_def leaf_def)

lemma prepare_options: "prepare E options = Inr V \<Longrightarrow> v_options V = options"
  unfolding prepare_def Let_def
  by (auto split: if_splits ConfigFile.splits option.splits)

text \<open>
  In a run that gets past the configuration and whose executor no exception leaves,
  with \<^verbatim>\<open>options.main\<close> a non-empty string, the output is what the iteration over the
  source files left, followed by the alias block, and the last message is the alias
  notification.
\<close>

lemma main_alias_unless_thrown:
  assumes "prepare E options = Inr V"
    and "options_main options = Some m" and "m \<noteq> []"
    and "\<not> executor_thrown (bundle_files E V)"
  shows "generate E options = Inr (assemble E V)
       \<and> sink (assemble E V)
           = sink (bundle_files E V)
             @ v_eol V @ ''declare module '' @ [CHR 0x27] @ options_name options @ [CHR 0x27]
             @ '' {'' @ v_eol V
             @ v_indent V @ ''export * from '' @ [CHR 0x27] @ m @ [CHR 0x27] @ '';'' @ v_eol V
             @ ''}'' @ v_eol V
       \<and> messages (assemble E V)
           = messages (bundle_files E V)
             @ [''Aliased main module '' @ options_name options @ '' to '' @ m]"
  using assms prepare_options[OF assms(1)]
  by (simp add: generate_def assemble_def write_main_def truthy_def main_alias_def
      sendMessage_def output_write_def Let_def)

text \<open>
  Claim C7 fails of the code where the replacer throws. The input declaration file
  \<open>importing_file\<close> has a string literal without a parent: the run writes the banner
  and the opening line of the module, the reading of \<^verbatim>\<open>node.parent.kind\<close> throws, the
  promise is rejected with the \<open>TypeError\<close>, and the alias block of the main module
  \<open>pkg/c\<close> is never written.
\<close>

theorem main_alias_lost_to_TypeError:
  "generate (example_env (idle_program [importing_file]))
     (example_options\<lparr>options_main := Some ''pkg/c''\<rparr>)
   = Inr \<lparr>sink = banner @ LF @ ''declare module '' @ [CHR 0x27] @ ''pkg/c'' @ [CHR 0x27]
                 @ '' {'' @ LF @ TAB,
          messages = [''Processing /base/c.d.ts''],
          rejected = Some TypeError_kind_of_undefined,
          executor_thrown = True\<rparr>"
  by (simp add: run_simps importing_file_def importing_statement_def slice_def
      writeDeclaration_def isExternalModule_def externalMarker_def NodeFlags_Export_def
      branch_def leaf_def processTree_throwing_def visit_throwing.simps readThrough_def
      replacer_of_def sourceModuleId_def executor_throws_def reject_def)

end
